theory Spec2Isabelle
  imports Complex_Main
begin

section \<open>Runtime values\<close>

text \<open>
  The normalisation helpers of the article page and of the about page take a value of
  type \<open>unknown\<close>: whatever the CMS response, parsed from JSON, holds at the field.
  \<open>Undefined\<close> is the value of a missing property. A number is kept by its value;
  the helpers only ask whether it is zero.
\<close>

datatype jsval =
    Undefined
  | Null
  | Bool bool
  | Num rat
  | Str string
  | Arr "jsval list"
  | Obj "(string \<times> jsval) list"

text \<open>\<open>!value\<close> is the negation of \<open>truthy value\<close>.\<close>

fun truthy :: "jsval \<Rightarrow> bool" where
  "truthy Undefined = False"
| "truthy Null = False"
| "truthy (Bool b) = b"
| "truthy (Num r) = (r \<noteq> 0)"
| "truthy (Str s) = (s \<noteq> [])"
| "truthy (Arr items) = True"
| "truthy (Obj kvs) = True"

text \<open>
  \<open>record.k\<close> for the keys the helpers read (\<open>attributes\<close>, \<open>data\<close>, \<open>url\<close>,
  \<open>formats\<close>, \<open>large\<close>, \<open>medium\<close>): the property of an object, and \<open>undefined\<close>
  on an array, a string, a number or a boolean, none of which has such a property.
  The helpers read a property of a value only after its truthiness test or behind
  \<open>?.\<close>, so the receiver is never \<open>null\<close> or \<open>undefined\<close>.
\<close>

fun field_of :: "jsval \<Rightarrow> string \<Rightarrow> jsval" where
  "field_of (Obj kvs) k = (case map_of kvs k of Some v \<Rightarrow> v | None \<Rightarrow> Undefined)"
| "field_of v k = Undefined"

text \<open>\<open>v?.k\<close>: \<open>undefined\<close> when \<open>v\<close> is \<open>null\<close> or \<open>undefined\<close>.\<close>

fun opt_field :: "jsval \<Rightarrow> string \<Rightarrow> jsval" where
  "opt_field Undefined k = Undefined"
| "opt_field Null k = Undefined"
| "opt_field v k = field_of v k"

text \<open>\<open>k in record\<close> on an object.\<close>

fun has_key :: "string \<Rightarrow> jsval \<Rightarrow> bool" where
  "has_key k (Obj kvs) = (map_of kvs k \<noteq> None)"
| "has_key k v = False"

text \<open>\<open>typeof v === 'object'\<close>: objects, arrays and \<open>null\<close>.\<close>

fun typeof_object :: "jsval \<Rightarrow> bool" where
  "typeof_object Null = True"
| "typeof_object (Arr items) = True"
| "typeof_object (Obj kvs) = True"
| "typeof_object v = False"

fun isArray :: "jsval \<Rightarrow> bool" where
  "isArray (Arr items) = True"
| "isArray v = False"

section \<open>Media normalisation\<close>

text \<open>
  \<open>extractMediaItems\<close> of the article page (\<open>blog/[slug]/page.tsx\<close>). Its first
  test, \<open>if (!value) return []\<close>, takes \<open>undefined\<close>, \<open>null\<close>, \<open>false\<close>, zero and
  the empty string; arrays and objects are always truthy. The array case maps, flattens
  one level and drops falsy elements. A value that is none of array, string and object
  reaches the final \<open>return []\<close>.
\<close>

function extractMediaItems :: "jsval \<Rightarrow> jsval list" where
  "extractMediaItems (Arr items) =
     filter truthy (concat (map extractMediaItems items))"
| "extractMediaItems (Str s) =
     (if \<not> truthy (Str s) then [] else [Obj [(''url'', Str s)]])"
| "extractMediaItems (Obj kvs) =
     (if truthy (field_of (Obj kvs) ''attributes'') then [field_of (Obj kvs) ''attributes'']
      else if truthy (field_of (Obj kvs) ''data'') then extractMediaItems (field_of (Obj kvs) ''data'')
      else if has_key ''url'' (Obj kvs) \<or> has_key ''formats'' (Obj kvs) then [Obj kvs]
      else [])"
| "extractMediaItems Undefined = []"
| "extractMediaItems Null = []"
| "extractMediaItems (Bool b) = []"
| "extractMediaItems (Num r) = []"
  by pat_completeness auto
termination
proof (relation "measure size")
  show "wf (measure size)" by simp
next
  fix items :: "jsval list" and x
  assume "x \<in> set items"
  then have "size x < Suc (size_list size items)"
    by (induction items) auto
  then show "(x, Arr items) \<in> measure size" by simp
next
  fix kvs :: "(string \<times> jsval) list"
  have "size v < Suc (size_list (size_prod (\<lambda>_. 0) size) xs)"
    if "map_of xs k = Some v" for xs :: "(string \<times> jsval) list" and k v
    using that by (induction xs) (auto split: if_splits)
  then have "size (field_of (Obj kvs) ''data'') < size (Obj kvs)"
    by (auto split: option.splits)
  then show "(field_of (Obj kvs) ''data'', Obj kvs) \<in> measure size" by simp
qed

text \<open>
  \<open>extractMediaItems\<close> of the about page (\<open>about/page.tsx\<close>): the same function
  without the string case, so a string falls through to the final \<open>return []\<close>.
\<close>

function extractMediaItems_about :: "jsval \<Rightarrow> jsval list" where
  "extractMediaItems_about (Arr items) =
     filter truthy (concat (map extractMediaItems_about items))"
| "extractMediaItems_about (Obj kvs) =
     (if truthy (field_of (Obj kvs) ''attributes'') then [field_of (Obj kvs) ''attributes'']
      else if truthy (field_of (Obj kvs) ''data'')
        then extractMediaItems_about (field_of (Obj kvs) ''data'')
      else if has_key ''url'' (Obj kvs) \<or> has_key ''formats'' (Obj kvs) then [Obj kvs]
      else [])"
| "extractMediaItems_about (Str s) = []"
| "extractMediaItems_about Undefined = []"
| "extractMediaItems_about Null = []"
| "extractMediaItems_about (Bool b) = []"
| "extractMediaItems_about (Num r) = []"
  by pat_completeness auto
termination
proof (relation "measure size")
  show "wf (measure size)" by simp
next
  fix items :: "jsval list" and x
  assume "x \<in> set items"
  then have "size x < Suc (size_list size items)"
    by (induction items) auto
  then show "(x, Arr items) \<in> measure size" by simp
next
  fix kvs :: "(string \<times> jsval) list"
  have "size v < Suc (size_list (size_prod (\<lambda>_. 0) size) xs)"
    if "map_of xs k = Some v" for xs :: "(string \<times> jsval) list" and k v
    using that by (induction xs) (auto split: if_splits)
  then have "size (field_of (Obj kvs) ''data'') < size (Obj kvs)"
    by (auto split: option.splits)
  then show "(field_of (Obj kvs) ''data'', Obj kvs) \<in> measure size" by simp
qed

text \<open>
  The recursion of \<open>extractMediaItems\<close> with an explicit bound on its depth: \<open>None\<close>
  when the bound is used up before the function returns.
\<close>

fun extractMediaItems_fuel :: "nat \<Rightarrow> jsval \<Rightarrow> jsval list option" where
  "extractMediaItems_fuel 0 v = None"
| "extractMediaItems_fuel (Suc n) (Arr items) =
     map_option (\<lambda>rs. filter truthy (concat rs))
       (those (map (extractMediaItems_fuel n) items))"
| "extractMediaItems_fuel (Suc n) (Str s) =
     (if \<not> truthy (Str s) then Some [] else Some [Obj [(''url'', Str s)]])"
| "extractMediaItems_fuel (Suc n) (Obj kvs) =
     (if truthy (field_of (Obj kvs) ''attributes'')
        then Some [field_of (Obj kvs) ''attributes'']
      else if truthy (field_of (Obj kvs) ''data'')
        then extractMediaItems_fuel n (field_of (Obj kvs) ''data'')
      else if has_key ''url'' (Obj kvs) \<or> has_key ''formats'' (Obj kvs) then Some [Obj kvs]
      else Some [])"
| "extractMediaItems_fuel (Suc n) v = Some []"

text \<open>The nesting depth of a value: arrays and objects count one level each.\<close>

fun depth :: "jsval \<Rightarrow> nat" where
  "depth (Arr items) = Suc (fold max (map depth items) 0)"
| "depth (Obj kvs) = Suc (fold max (map (\<lambda>kv. depth (snd kv)) kvs) 0)"
| "depth v = 0"

section \<open>Media URLs\<close>

datatype error = TypeError

text \<open>\<open>process.env.STRAPI_API_URL || 'http://localhost:1337'\<close>\<close>

definition STRAPI_API_URL :: "string option \<Rightarrow> string" where
  "STRAPI_API_URL env =
     (case env of
        None \<Rightarrow> ''http://localhost:1337''
      | Some s \<Rightarrow> if s = [] then ''http://localhost:1337'' else s)"

definition startsWith :: "string \<Rightarrow> string \<Rightarrow> bool" where
  "startsWith s p = (take (length p) s = p)"

text \<open>\<open>a || b\<close>\<close>

definition js_or :: "jsval \<Rightarrow> jsval \<Rightarrow> jsval" where
  "js_or a b = (if truthy a then a else b)"

text \<open>
  \<open>withBaseUrl\<close>, with the CMS origin as a parameter. The declared parameter type is
  \<open>string | null | undefined\<close>; a truthy value of another type has no \<open>startsWith\<close>
  method and the call throws.
\<close>

fun withBaseUrl :: "string \<Rightarrow> jsval \<Rightarrow> error + jsval" where
  "withBaseUrl origin (Str url) =
     (if \<not> truthy (Str url) then Inr Null
      else if startsWith url ''http://'' \<or> startsWith url ''https://'' then Inr (Str url)
      else Inr (Str (origin @ url)))"
| "withBaseUrl origin v = (if \<not> truthy v then Inr Null else Inl TypeError)"

text \<open>\<open>asset.formats?.[name]?.url\<close>\<close>

definition format_url :: "jsval \<Rightarrow> string \<Rightarrow> jsval" where
  "format_url asset name = opt_field (opt_field (field_of asset ''formats'') name) ''url''"

definition getMediaUrl :: "string \<Rightarrow> jsval \<Rightarrow> error + jsval" where
  "getMediaUrl origin asset =
     (if \<not> truthy asset then Inr Null
      else
        let url = js_or (format_url asset ''large'')
                    (js_or (format_url asset ''medium'') (field_of asset ''url''))
        in withBaseUrl origin (js_or url Null))"

section \<open>Relations\<close>

definition getEntityAttributes :: "jsval \<Rightarrow> jsval" where
  "getEntityAttributes entity =
     (if \<not> truthy entity \<or> \<not> typeof_object entity then Null
      else if has_key ''attributes'' entity \<and> truthy (field_of entity ''attributes'')
              \<and> typeof_object (field_of entity ''attributes'')
        then field_of entity ''attributes''
      else entity)"

definition getRelation :: "jsval \<Rightarrow> jsval" where
  "getRelation v =
     (if \<not> truthy v \<or> \<not> typeof_object v then Null
      else if has_key ''data'' v then
        (let data = field_of v ''data''
         in if \<not> truthy data \<or> isArray data then Null else getEntityAttributes data)
      else getEntityAttributes v)"

section \<open>Preview session\<close>

text \<open>
  A request is its URL and the search parameters parsed from it, in order.
  \<open>request.url\<close> is the absolute \<open>http:\<close> or \<open>https:\<close> URL of the request, which the
  first line of each handler has parsed. \<open>searchParams.get(k)\<close> is the first value of
  \<open>k\<close>, or \<open>null\<close>.
\<close>

record request =
  req_url :: string
  req_searchParams :: "(string \<times> string) list"

definition get_param :: "request \<Rightarrow> string \<Rightarrow> string option" where
  "get_param request k = map_of (req_searchParams request) k"

text \<open>
  A \<open>URL\<close> object is kept as it was built: \<open>new URL(input, base)\<close> followed by the
  \<open>searchParams.set\<close> calls made on it, in order.
\<close>

record URL =
  url_input :: string
  url_base :: string
  url_sets :: "(string \<times> string) list"

text \<open>
  \<open>new URL(input, base)\<close> throws \<open>TypeError\<close> when the platform's parser rejects the
  input. Two cases are decided here, for the \<open>http:\<close> or \<open>https:\<close> base of a request:
  \<^item> an input that begins with one \<open>/\<close> and goes on with anything but \<open>/\<close>, a
    backslash, a tab or a newline is a path on the base's host, and the parser accepts
    every path, query and fragment;
  \<^item> an input that begins with \<open>/\<close> and is made of two or more \<open>/\<close> and backslashes
    only (such as \<open>//\<close>) names an empty host, which the parser rejects.
  For every other input the parser's verdict is the parameter \<open>parses\<close>.
\<close>

definition slash :: "char \<Rightarrow> bool" where
  "slash c = (c = CHR ''/'' \<or> c = CHR 0x5C)"

definition tab_or_newline :: "char \<Rightarrow> bool" where
  "tab_or_newline c = (c = CHR 0x09 \<or> c = CHR 0x0A \<or> c = CHR 0x0D)"

fun rooted_path :: "string \<Rightarrow> bool" where
  "rooted_path [] = False"
| "rooted_path [c] = (c = CHR ''/'')"
| "rooted_path (c # d # rest) = (c = CHR ''/'' \<and> \<not> slash d \<and> \<not> tab_or_newline d)"

fun empty_host :: "string \<Rightarrow> bool" where
  "empty_host (c # d # rest) = (c = CHR ''/'' \<and> slash d \<and> list_all slash rest)"
| "empty_host input = False"

definition new_URL :: "(string \<Rightarrow> string \<Rightarrow> bool) \<Rightarrow> string \<Rightarrow> string \<Rightarrow> error + URL" where
  "new_URL parses input base =
     (if rooted_path input then Inr \<lparr>url_input = input, url_base = base, url_sets = []\<rparr>
      else if empty_host input then Inl TypeError
      else if parses input base then Inr \<lparr>url_input = input, url_base = base, url_sets = []\<rparr>
      else Inl TypeError)"

definition searchParams_set :: "string \<Rightarrow> string \<Rightarrow> URL \<Rightarrow> URL" where
  "searchParams_set k v u = u\<lparr>url_sets := url_sets u @ [(k, v)]\<rparr>"

text \<open>
  What a handler ends with: \<open>NextResponse.json({ message }, { status })\<close>,
  \<open>NextResponse.redirect(url)\<close>, or an error that it throws.
\<close>

datatype response = Json nat string | Redirect URL | Thrown error

text \<open>Truthiness of a \<open>string | null | undefined\<close>.\<close>

fun truthy_str :: "string option \<Rightarrow> bool" where
  "truthy_str None = False"
| "truthy_str (Some s) = (s \<noteq> [])"

text \<open>
  The enable route. The draft flag (\<open>draftMode().isEnabled\<close>, held in a cookie) is passed
  in and returned; when the handler throws, the flag returned is the one it has set by
  then. \<open>PREVIEW_SECRET\<close> is \<open>process.env.PREVIEW_SECRET\<close>.
\<close>

definition enable_GET ::
  "(string \<Rightarrow> string \<Rightarrow> bool) \<Rightarrow> string option \<Rightarrow> request \<Rightarrow> bool \<Rightarrow> response \<times> bool" where
  "enable_GET parses PREVIEW_SECRET request isEnabled =
     (let url = get_param request ''url'';
          secret = get_param request ''secret'';
          expectedSecret = PREVIEW_SECRET
      in
        if truthy_str expectedSecret \<and> secret \<noteq> expectedSecret
          then (Json 401 ''Invalid preview secret'', isEnabled)
        else
          (case url of
             None \<Rightarrow> (Json 400 ''Missing or invalid url'', isEnabled)
           | Some u \<Rightarrow>
               if \<not> truthy_str (Some u) \<or> \<not> startsWith u ''/''
                 then (Json 400 ''Missing or invalid url'', isEnabled)
               else
                 let status = get_param request ''status'';
                     locale = get_param request ''locale'';
                     isEnabled = True
                 in
                   (case new_URL parses u (req_url request) of
                      Inl e \<Rightarrow> (Thrown e, isEnabled)
                    | Inr redirectUrl \<Rightarrow>
                        let redirectUrl =
                              (case status of
                                 Some st \<Rightarrow>
                                   if truthy_str status
                                     then searchParams_set ''status'' st redirectUrl
                                   else redirectUrl
                               | None \<Rightarrow> redirectUrl);
                            redirectUrl =
                              (case locale of
                                 Some l \<Rightarrow>
                                   if truthy_str locale
                                     then searchParams_set ''locale'' l redirectUrl
                                   else redirectUrl
                               | None \<Rightarrow> redirectUrl)
                        in (Redirect redirectUrl, isEnabled))))"

text \<open>The disable route.\<close>

definition disable_GET ::
  "(string \<Rightarrow> string \<Rightarrow> bool) \<Rightarrow> request \<Rightarrow> bool \<Rightarrow> response \<times> bool" where
  "disable_GET parses request isEnabled =
     (let url = (case get_param request ''url'' of
                   None \<Rightarrow> ''/''
                 | Some u \<Rightarrow> if truthy_str (Some u) then u else ''/'');
          isEnabled = False
      in
        (case new_URL parses url (req_url request) of
           Inl e \<Rightarrow> (Thrown e, isEnabled)
         | Inr redirectUrl \<Rightarrow> (Redirect redirectUrl, isEnabled)))"

text \<open>
  The status a page renders with: \<open>typeof searchParams?.status === 'string' ?
  searchParams.status : isDraft ? 'draft' : 'published'\<close>. A page's search parameter is a
  string, an array of strings (a repeated parameter), or missing.
\<close>

datatype query_value = Single string | Multi "string list"

fun page_status :: "bool \<Rightarrow> query_value option \<Rightarrow> string" where
  "page_status isDraft (Some (Single s)) = s"
| "page_status isDraft q = (if isDraft then ''draft'' else ''published'')"

section \<open>Properties of the media normalisation\<close>

text \<open>Every asset that \<open>extractMediaItems\<close> returns is truthy, so the final
  \<open>filter(Boolean)\<close> of the array case drops nothing.\<close>

lemma extractMediaItems_truthy: "x \<in> set (extractMediaItems v) \<Longrightarrow> truthy x"
  by (induction v rule: extractMediaItems.induct) (auto split: if_splits)

lemma extractMediaItems_about_truthy: "x \<in> set (extractMediaItems_about v) \<Longrightarrow> truthy x"
  by (induction v rule: extractMediaItems_about.induct) (auto split: if_splits)

lemma extractMediaItems_Arr:
  "extractMediaItems (Arr items) = concat (map extractMediaItems items)"
  by (simp add: filter_id_conv extractMediaItems_truthy)

lemma extractMediaItems_about_Arr:
  "extractMediaItems_about (Arr items) = concat (map extractMediaItems_about items)"
  by (simp add: filter_id_conv extractMediaItems_about_truthy)

text \<open>
  The depth of a value bounds the depth of the recursion: an element of an array and a
  property of an object are less deep than the array or object.
\<close>

lemma fold_max_ge: "fold max ns (a::nat) \<ge> a"
  by (induction ns arbitrary: a) (auto intro: le_trans [OF max.cobounded2])

lemma fold_max_mem: "n \<in> set ns \<Longrightarrow> n \<le> fold max ns (a::nat)"
proof (induction ns arbitrary: a)
  case Nil
  then show ?case by simp
next
  case (Cons m ns)
  show ?case
  proof (cases "n = m")
    case True
    have "m \<le> max m a" by simp
    also have "\<dots> \<le> fold max ns (max m a)" by (rule fold_max_ge)
    finally show ?thesis using True by simp
  next
    case False
    with Cons.prems have "n \<in> set ns" by simp
    then show ?thesis using Cons.IH by simp
  qed
qed

lemma depth_item: "x \<in> set items \<Longrightarrow> depth x < depth (Arr items)"
  using fold_max_mem [of "depth x" "map depth items" 0] by (simp add: less_Suc_eq_le)

lemma depth_map_of: "map_of kvs k = Some v \<Longrightarrow> depth v < depth (Obj kvs)"
proof -
  assume "map_of kvs k = Some v"
  then have "(k, v) \<in> set kvs" by (rule map_of_SomeD)
  then have "depth v \<in> set (map (\<lambda>kv. depth (snd kv)) kvs)" by force
  then have "depth v \<le> fold max (map (\<lambda>kv. depth (snd kv)) kvs) 0" by (rule fold_max_mem)
  then show ?thesis by simp
qed

lemma those_map_Some:
  "(\<And>x. x \<in> set xs \<Longrightarrow> g x = Some (f x)) \<Longrightarrow> those (map g xs) = Some (map f xs)"
  by (induction xs) auto

lemma extractMediaItems_fuel_enough:
  "depth v < n \<Longrightarrow> extractMediaItems_fuel n v = Some (extractMediaItems v)"
proof (induction v arbitrary: n rule: extractMediaItems.induct)
  case (1 items)
  then obtain m where n: "n = Suc m" by (cases n) auto
  have "\<And>x. x \<in> set items \<Longrightarrow> extractMediaItems_fuel m x = Some (extractMediaItems x)"
  proof -
    fix x assume x: "x \<in> set items"
    then have "depth x < depth (Arr items)" by (rule depth_item)
    with "1.prems" n have "depth x < m" by simp
    with x show "extractMediaItems_fuel m x = Some (extractMediaItems x)" by (rule "1.IH")
  qed
  then have "those (map (extractMediaItems_fuel m) items) = Some (map extractMediaItems items)"
    by (rule those_map_Some)
  then show ?case using n by simp
next
  case (2 s)
  then obtain m where "n = Suc m" by (cases n) auto
  then show ?case by simp
next
  case (3 kvs)
  then obtain m where n: "n = Suc m" by (cases n) auto
  show ?case
  proof (cases "\<not> truthy (field_of (Obj kvs) ''attributes'') \<and> truthy (field_of (Obj kvs) ''data'')")
    case True
    then obtain d where d: "map_of kvs ''data'' = Some d"
      by (auto split: option.splits)
    then have "depth d < depth (Obj kvs)" by (rule depth_map_of)
    with "3.prems" n have "depth (field_of (Obj kvs) ''data'') < m" using d by simp
    with True have "extractMediaItems_fuel m (field_of (Obj kvs) ''data'')
        = Some (extractMediaItems (field_of (Obj kvs) ''data''))"
      using "3.IH" by blast
    with True show ?thesis using n by simp
  next
    case False
    then show ?thesis using n by auto
  qed
qed (case_tac n; simp)+

text \<open>
  C2. The three wrapper depths of one asset, \<open>{data: {attributes: {url: "/x.png"}}}\<close>,
  \<open>{attributes: {url: "/x.png"}}\<close> and \<open>{url: "/x.png"}\<close>, all normalise to the
  singleton \<open>[{url: "/x.png"}]\<close>, in the article page's copy of \<open>extractMediaItems\<close>
  and in the about page's.
\<close>

theorem extractMediaItems_wrapper_depths:
  "extractMediaItems (Obj [(''data'', Obj [(''attributes'', Obj [(''url'', Str ''/x.png'')])])])
     = [Obj [(''url'', Str ''/x.png'')]]
   \<and> extractMediaItems (Obj [(''attributes'', Obj [(''url'', Str ''/x.png'')])])
     = [Obj [(''url'', Str ''/x.png'')]]
   \<and> extractMediaItems (Obj [(''url'', Str ''/x.png'')])
     = [Obj [(''url'', Str ''/x.png'')]]
   \<and> extractMediaItems_about
       (Obj [(''data'', Obj [(''attributes'', Obj [(''url'', Str ''/x.png'')])])])
     = [Obj [(''url'', Str ''/x.png'')]]
   \<and> extractMediaItems_about (Obj [(''attributes'', Obj [(''url'', Str ''/x.png'')])])
     = [Obj [(''url'', Str ''/x.png'')]]
   \<and> extractMediaItems_about (Obj [(''url'', Str ''/x.png'')])
     = [Obj [(''url'', Str ''/x.png'')]]"
  by simp

text \<open>
  C1, as the code has it. For every object given to \<open>extractMediaItems\<close> (either copy):
  if the value of its \<open>attributes\<close> key is truthy, the result is the singleton holding
  that value, which is not recursed into; else if the value of its \<open>data\<close> key is truthy,
  the result is that of the recursive call on that value; else if the object carries a
  \<open>url\<close> or a \<open>formats\<close> key, the result is the object itself as a singleton; any
  other object yields the empty sequence.
\<close>

theorem extractMediaItems_object_precedence:
  "(truthy (field_of (Obj kvs) ''attributes'') \<longrightarrow>
      extractMediaItems (Obj kvs) = [field_of (Obj kvs) ''attributes'']
      \<and> extractMediaItems_about (Obj kvs) = [field_of (Obj kvs) ''attributes''])
   \<and> (\<not> truthy (field_of (Obj kvs) ''attributes'') \<and> truthy (field_of (Obj kvs) ''data'') \<longrightarrow>
      extractMediaItems (Obj kvs) = extractMediaItems (field_of (Obj kvs) ''data'')
      \<and> extractMediaItems_about (Obj kvs) = extractMediaItems_about (field_of (Obj kvs) ''data''))
   \<and> (\<not> truthy (field_of (Obj kvs) ''attributes'') \<and> \<not> truthy (field_of (Obj kvs) ''data'')
        \<and> (has_key ''url'' (Obj kvs) \<or> has_key ''formats'' (Obj kvs)) \<longrightarrow>
      extractMediaItems (Obj kvs) = [Obj kvs] \<and> extractMediaItems_about (Obj kvs) = [Obj kvs])
   \<and> (\<not> truthy (field_of (Obj kvs) ''attributes'') \<and> \<not> truthy (field_of (Obj kvs) ''data'')
        \<and> \<not> has_key ''url'' (Obj kvs) \<and> \<not> has_key ''formats'' (Obj kvs) \<longrightarrow>
      extractMediaItems (Obj kvs) = [] \<and> extractMediaItems_about (Obj kvs) = [])"
  by simp

theorem extractMediaItems_object_precedence_witness:
  "extractMediaItems (Obj [(''attributes'', Obj [(''data'', Obj [(''url'', Str ''/x.png'')])])])
     = [Obj [(''data'', Obj [(''url'', Str ''/x.png'')])]]
   \<and> extractMediaItems (Obj [(''attributes'', Null), (''data'', Str ''/y.png'')])
     = [Obj [(''url'', Str ''/y.png'')]]
   \<and> extractMediaItems_about (Obj [(''data'', Null), (''formats'', Obj [])])
     = [Obj [(''data'', Null), (''formats'', Obj [])]]
   \<and> extractMediaItems (Obj [(''name'', Str ''x'')]) = []"
  using extractMediaItems_object_precedence
          [of "[(''attributes'', Obj [(''data'', Obj [(''url'', Str ''/x.png'')])])]"]
        extractMediaItems_object_precedence
          [of "[(''attributes'', Null), (''data'', Str ''/y.png'')]"]
        extractMediaItems_object_precedence [of "[(''data'', Null), (''formats'', Obj [])]"]
        extractMediaItems_object_precedence [of "[(''name'', Str ''x'')]"]
  by simp

text \<open>
  The value under \<open>attributes\<close> is returned as it is: with a \<open>data\<close> wrapper inside
  \<open>attributes\<close>, the result \<open>[{data: {url: "/x.png"}}]\<close> differs from what the
  recursive call on that value returns, \<open>[{url: "/x.png"}]\<close>.
\<close>

theorem extractMediaItems_attributes_not_recursed:
  "has_key ''attributes'' (Obj [(''attributes'', Obj [(''data'', Obj [(''url'', Str ''/x.png'')])])])
   \<and> extractMediaItems (Obj [(''attributes'', Obj [(''data'', Obj [(''url'', Str ''/x.png'')])])])
       \<noteq> extractMediaItems
           (field_of (Obj [(''attributes'', Obj [(''data'', Obj [(''url'', Str ''/x.png'')])])])
              ''attributes'')
   \<and> extractMediaItems_about
         (Obj [(''attributes'', Obj [(''data'', Obj [(''url'', Str ''/x.png'')])])])
       \<noteq> extractMediaItems_about
           (field_of (Obj [(''attributes'', Obj [(''data'', Obj [(''url'', Str ''/x.png'')])])])
              ''attributes'')"
  by simp

text \<open>
  C8, as the code has it. For every non-empty string \<open>s\<close>, the article page's
  \<open>extractMediaItems\<close> returns the singleton \<open>[{url: s}]\<close>, and for the empty string,
  which is falsy, the empty sequence. In both copies \<open>null\<close> and a missing value yield
  the empty sequence, and a sequence yields the concatenation, one level deep, of the
  results of its elements; the filter that follows drops nothing.
\<close>

theorem extractMediaItems_scalar_and_sequence:
  "(s \<noteq> [] \<longrightarrow> extractMediaItems (Str s) = [Obj [(''url'', Str s)]])
   \<and> extractMediaItems (Str []) = []
   \<and> extractMediaItems Null = [] \<and> extractMediaItems Undefined = []
   \<and> extractMediaItems_about Null = [] \<and> extractMediaItems_about Undefined = []
   \<and> extractMediaItems (Arr items) = filter truthy (concat (map extractMediaItems items))
   \<and> extractMediaItems (Arr items) = concat (map extractMediaItems items)
   \<and> extractMediaItems_about (Arr items) = concat (map extractMediaItems_about items)"
  using extractMediaItems_Arr [of items] extractMediaItems_about_Arr [of items] by simp

theorem extractMediaItems_scalar_and_sequence_witness:
  "extractMediaItems (Str ''/x.png'') = [Obj [(''url'', Str ''/x.png'')]]
   \<and> extractMediaItems (Arr [Str ''/a.png'', Null, Arr [Obj [(''url'', Str ''/b.png'')]]])
      = [Obj [(''url'', Str ''/a.png'')], Obj [(''url'', Str ''/b.png'')]]"
  using extractMediaItems_scalar_and_sequence
          [of "''/x.png''" "[Str ''/a.png'', Null, Arr [Obj [(''url'', Str ''/b.png'')]]]"]
  by simp

text \<open>
  The empty string does not become an asset in the article page's copy, and the about
  page's copy, which has no string case, returns the empty sequence for \<open>"/x.png"\<close>.
\<close>

theorem extractMediaItems_string_counterexample:
  "extractMediaItems (Str '''') \<noteq> [Obj [(''url'', Str '''')]]
   \<and> extractMediaItems_about (Str ''/x.png'') \<noteq> [Obj [(''url'', Str ''/x.png'')]]"
  by simp

text \<open>
  C9. \<open>extractMediaItems\<close> returns on every value, however deeply \<open>data\<close> and
  \<open>attributes\<close> wrappers and arrays are nested: a recursion depth of one more than the
  nesting depth of the value is enough, and the result is that of \<open>extractMediaItems\<close>.
\<close>

theorem extractMediaItems_terminates:
  "extractMediaItems_fuel (Suc (depth v)) v = Some (extractMediaItems v)"
  by (rule extractMediaItems_fuel_enough) simp

theorem extractMediaItems_terminates_witness:
  "extractMediaItems_fuel 4
     (Obj [(''data'', Arr [Obj [(''data'', Obj [(''attributes'', Obj [(''url'', Str ''/x.png'')])])]])])
   = Some [Obj [(''url'', Str ''/x.png'')]]"
  using extractMediaItems_terminates
          [of "Obj [(''data'', Arr [Obj [(''data'', Obj [(''attributes'', Obj [(''url'', Str ''/x.png'')])])]])]"]
  by (simp add: eval_nat_numeral)

section \<open>Properties of the media URL and of relations\<close>

text \<open>
  C3. \<open>getMediaUrl\<close> returns \<open>null\<close> for \<open>null\<close> and for a missing asset. For any
  other asset it takes \<open>formats.large.url\<close>, else (when that is missing or empty)
  \<open>formats.medium.url\<close>, else \<open>url\<close>; the URL selected is returned unchanged when
  it begins with \<open>http://\<close> or \<open>https://\<close>, and prefixed with the configured CMS
  origin otherwise. An asset none of whose three URLs is set gives \<open>null\<close>.
\<close>

theorem getMediaUrl_selection:
  "getMediaUrl (STRAPI_API_URL env) Null = Inr Null
   \<and> getMediaUrl (STRAPI_API_URL env) Undefined = Inr Null
   \<and> (truthy asset \<and> u \<noteq> []
        \<and> (format_url asset ''large'' = Str u
            \<or> \<not> truthy (format_url asset ''large'') \<and> format_url asset ''medium'' = Str u
            \<or> \<not> truthy (format_url asset ''large'') \<and> \<not> truthy (format_url asset ''medium'')
                \<and> field_of asset ''url'' = Str u) \<longrightarrow>
      getMediaUrl (STRAPI_API_URL env) asset =
        Inr (Str (if startsWith u ''http://'' \<or> startsWith u ''https://'' then u
                  else STRAPI_API_URL env @ u)))
   \<and> (truthy asset \<and> \<not> truthy (format_url asset ''large'')
        \<and> \<not> truthy (format_url asset ''medium'') \<and> \<not> truthy (field_of asset ''url'') \<longrightarrow>
      getMediaUrl (STRAPI_API_URL env) asset = Inr Null)"
  by (auto simp: getMediaUrl_def js_or_def Let_def split: jsval.splits)

theorem getMediaUrl_selection_witness:
  "getMediaUrl (STRAPI_API_URL None)
     (Obj [(''formats'', Obj [(''large'', Obj [(''url'', Str ''/a.png'')]),
                              (''medium'', Obj [(''url'', Str ''/b.png'')])]),
           (''url'', Str ''/c.png'')])
     = Inr (Str ''http://localhost:1337/a.png'')
   \<and> getMediaUrl (STRAPI_API_URL (Some ''https://cms.example''))
     (Obj [(''formats'', Obj [(''medium'', Obj [(''url'', Str ''https://cdn.example/x.png'')])]),
           (''url'', Str ''/c.png'')])
     = Inr (Str ''https://cdn.example/x.png'')
   \<and> getMediaUrl (STRAPI_API_URL (Some ''https://cms.example''))
     (Obj [(''url'', Str ''/c.png'')])
     = Inr (Str ''https://cms.example/c.png'')
   \<and> getMediaUrl (STRAPI_API_URL None) (Obj [(''name'', Str ''c'')]) = Inr Null"
  using getMediaUrl_selection
          [of None "Obj [(''formats'', Obj [(''large'', Obj [(''url'', Str ''/a.png'')]),
                              (''medium'', Obj [(''url'', Str ''/b.png'')])]),
           (''url'', Str ''/c.png'')]" "''/a.png''"]
        getMediaUrl_selection
          [of "Some ''https://cms.example''"
              "Obj [(''formats'', Obj [(''medium'', Obj [(''url'', Str ''https://cdn.example/x.png'')])]),
                    (''url'', Str ''/c.png'')]" "''https://cdn.example/x.png''"]
        getMediaUrl_selection
          [of "Some ''https://cms.example''" "Obj [(''url'', Str ''/c.png'')]" "''/c.png''"]
        getMediaUrl_selection [of None "Obj [(''name'', Str ''c'')]" "''x''"]
  by (simp add: format_url_def STRAPI_API_URL_def startsWith_def)

text \<open>
  C4, as the code has it. A value that is neither an object nor an array (\<open>null\<close>, a
  missing value, a string, a number, a boolean) gives \<open>null\<close>. For every object that
  carries a \<open>data\<close> key whose value is a sequence, \<open>null\<close> or missing, or anything else
  that is not a single record, \<open>getRelation\<close> returns \<open>null\<close>, never an element of the
  sequence. When the data is a single record, the result is the record's \<open>attributes\<close>
  where that is present as an object or array, and the record itself otherwise. An
  object or array without a \<open>data\<close> key is unwrapped through its own \<open>attributes\<close> in
  the same way, and otherwise returned as it is.
\<close>

theorem getRelation_cases:
  "(\<not> truthy v \<or> \<not> typeof_object v \<longrightarrow> getRelation v = Null)
   \<and> (truthy v \<and> typeof_object v \<and> has_key ''data'' v
        \<and> (isArray (field_of v ''data'') \<or> \<not> truthy (field_of v ''data'')
            \<or> \<not> typeof_object (field_of v ''data'')) \<longrightarrow>
      getRelation v = Null)
   \<and> (truthy v \<and> typeof_object v \<and> has_key ''data'' v \<and> field_of v ''data'' = Obj d \<longrightarrow>
      getRelation v =
        (if truthy (field_of (Obj d) ''attributes'') \<and> typeof_object (field_of (Obj d) ''attributes'')
         then field_of (Obj d) ''attributes'' else Obj d))
   \<and> (truthy v \<and> typeof_object v \<and> \<not> has_key ''data'' v \<longrightarrow>
      getRelation v =
        (if truthy (field_of v ''attributes'') \<and> typeof_object (field_of v ''attributes'')
         then field_of v ''attributes'' else v))"
  by (cases v) (auto simp: getRelation_def getEntityAttributes_def Let_def split: option.splits)

theorem getRelation_cases_witness:
  "getRelation (Str ''abc'') = Null
   \<and> getRelation Null = Null
   \<and> getRelation (Obj [(''data'', Arr [Obj [(''name'', Str ''a'')], Obj [(''name'', Str ''b'')]])])
       = Null
   \<and> getRelation (Obj [(''data'', Null)]) = Null
   \<and> getRelation (Obj [(''data'', Str ''abc'')]) = Null
   \<and> getRelation (Obj [(''data'', Obj [(''id'', Num 1),
                                       (''attributes'', Obj [(''name'', Str ''a'')])])])
       = Obj [(''name'', Str ''a'')]
   \<and> getRelation (Obj [(''data'', Obj [(''name'', Str ''a'')])]) = Obj [(''name'', Str ''a'')]
   \<and> getRelation (Obj [(''data'', Obj [(''attributes'', Str ''x'')])])
       = Obj [(''attributes'', Str ''x'')]
   \<and> getRelation (Obj [(''attributes'', Obj [(''name'', Str ''a'')])]) = Obj [(''name'', Str ''a'')]
   \<and> getRelation (Obj [(''name'', Str ''a'')]) = Obj [(''name'', Str ''a'')]
   \<and> getRelation (Arr [Obj [(''name'', Str ''a'')]]) = Arr [Obj [(''name'', Str ''a'')]]"
  using getRelation_cases [of "Str ''abc''" "[]"]
        getRelation_cases [of Null "[]"]
        getRelation_cases
          [of "Obj [(''data'', Arr [Obj [(''name'', Str ''a'')], Obj [(''name'', Str ''b'')]])]" "[]"]
        getRelation_cases [of "Obj [(''data'', Null)]" "[]"]
        getRelation_cases [of "Obj [(''data'', Str ''abc'')]" "[]"]
        getRelation_cases
          [of "Obj [(''data'', Obj [(''id'', Num 1), (''attributes'', Obj [(''name'', Str ''a'')])])]"
              "[(''id'', Num 1), (''attributes'', Obj [(''name'', Str ''a'')])]"]
        getRelation_cases
          [of "Obj [(''data'', Obj [(''name'', Str ''a'')])]" "[(''name'', Str ''a'')]"]
        getRelation_cases
          [of "Obj [(''data'', Obj [(''attributes'', Str ''x'')])]" "[(''attributes'', Str ''x'')]"]
        getRelation_cases [of "Obj [(''attributes'', Obj [(''name'', Str ''a'')])]" "[]"]
        getRelation_cases [of "Obj [(''name'', Str ''a'')]" "[]"]
        getRelation_cases [of "Arr [Obj [(''name'', Str ''a'')]]" "[]"]
  by simp

text \<open>
  A string has no \<open>data\<close> key and is not returned as it is, and an \<open>attributes\<close> key
  that holds a string is present and is not unwrapped.
\<close>

theorem getRelation_not_as_is:
  "\<not> has_key ''data'' (Str ''abc'') \<and> getRelation (Str ''abc'') \<noteq> Str ''abc''
   \<and> has_key ''attributes'' (Obj [(''attributes'', Str ''x'')])
   \<and> getRelation (Obj [(''data'', Obj [(''attributes'', Str ''x'')])])
       \<noteq> field_of (Obj [(''attributes'', Str ''x'')]) ''attributes''"
  by (simp add: getRelation_def getEntityAttributes_def)

section \<open>Properties of the preview session\<close>

text \<open>A path on the request's host always parses, and a parsed URL has no parameter set.\<close>

lemma rooted_path_new_URL:
  "rooted_path input \<Longrightarrow>
     new_URL parses input base = Inr \<lparr>url_input = input, url_base = base, url_sets = []\<rparr>"
  by (simp add: new_URL_def)

lemma new_URL_Inr:
  "new_URL parses input base = Inr target \<Longrightarrow>
     target = \<lparr>url_input = input, url_base = base, url_sets = []\<rparr>"
  by (auto simp: new_URL_def split: if_splits)

text \<open>
  C5. The enable route fails closed. When a secret is configured (set and not empty) and
  the request's \<open>secret\<close> differs from it or is missing, the response is 401 and the draft
  flag is left as it was, whatever the \<open>url\<close>. Otherwise, when \<open>url\<close> is missing or
  does not begin with \<open>/\<close>, the response is 400 and the draft flag is left as it was.
\<close>

theorem enable_GET_fails_closed:
  "(truthy_str PREVIEW_SECRET \<and> get_param request ''secret'' \<noteq> PREVIEW_SECRET \<longrightarrow>
      enable_GET parses PREVIEW_SECRET request isEnabled
        = (Json 401 ''Invalid preview secret'', isEnabled))
   \<and> (\<not> (truthy_str PREVIEW_SECRET \<and> get_param request ''secret'' \<noteq> PREVIEW_SECRET)
        \<and> (get_param request ''url'' = None
            \<or> (\<exists>u. get_param request ''url'' = Some u \<and> \<not> startsWith u ''/'')) \<longrightarrow>
      enable_GET parses PREVIEW_SECRET request isEnabled
        = (Json 400 ''Missing or invalid url'', isEnabled))"
  by (auto simp: enable_GET_def Let_def)

theorem enable_GET_fails_closed_witness:
  "enable_GET (\<lambda>input base. True) (Some ''s3cret'')
     \<lparr>req_url = ''http://host/api/preview/enable'',
      req_searchParams = [(''url'', ''http://evil.example/x''), (''secret'', ''guess'')]\<rparr> False
     = (Json 401 ''Invalid preview secret'', False)
   \<and> enable_GET (\<lambda>input base. True) (Some ''s3cret'')
     \<lparr>req_url = ''http://host/api/preview/enable'',
      req_searchParams = [(''url'', ''http://evil.example/x''), (''secret'', ''s3cret'')]\<rparr> False
     = (Json 400 ''Missing or invalid url'', False)
   \<and> enable_GET (\<lambda>input base. True) None
     \<lparr>req_url = ''http://host/api/preview/enable'', req_searchParams = []\<rparr> False
     = (Json 400 ''Missing or invalid url'', False)"
  using enable_GET_fails_closed
          [of "Some ''s3cret''"
              "\<lparr>req_url = ''http://host/api/preview/enable'',
                req_searchParams = [(''url'', ''http://evil.example/x''), (''secret'', ''guess'')]\<rparr>"
              "\<lambda>input base. True" False]
        enable_GET_fails_closed
          [of "Some ''s3cret''"
              "\<lparr>req_url = ''http://host/api/preview/enable'',
                req_searchParams = [(''url'', ''http://evil.example/x''), (''secret'', ''s3cret'')]\<rparr>"
              "\<lambda>input base. True" False]
        enable_GET_fails_closed
          [of None "\<lparr>req_url = ''http://host/api/preview/enable'', req_searchParams = []\<rparr>"
              "\<lambda>input base. True" False]
  by (simp add: get_param_def startsWith_def)

text \<open>
  C6, as the code has it. For every request whose secret is valid, or for which no secret
  is configured, and whose \<open>url\<close> begins with \<open>/\<close> and is accepted by
  \<open>new URL(url, request.url)\<close>, the enable route turns the draft flag on and redirects to
  that URL, with \<open>status\<close> and \<open>locale\<close> set as query parameters exactly when the
  request has them with a non-empty value. A page rendered afterwards without a \<open>status\<close>
  string of its own uses \<open>draft\<close>. Every \<open>url\<close> that is a path (one \<open>/\<close>, then
  anything but \<open>/\<close>, a backslash, a tab or a newline) is accepted.
\<close>

theorem enable_GET_redirects:
  "((\<not> truthy_str PREVIEW_SECRET \<or> get_param request ''secret'' = PREVIEW_SECRET)
      \<and> get_param request ''url'' = Some u \<and> startsWith u ''/''
      \<and> new_URL parses u (req_url request) = Inr target \<longrightarrow>
      enable_GET parses PREVIEW_SECRET request isEnabled =
        (Redirect \<lparr>url_input = u, url_base = req_url request,
                   url_sets =
                     (case get_param request ''status'' of
                        Some s \<Rightarrow> if s = [] then [] else [(''status'', s)] | None \<Rightarrow> [])
                     @ (case get_param request ''locale'' of
                        Some l \<Rightarrow> if l = [] then [] else [(''locale'', l)] | None \<Rightarrow> [])\<rparr>,
         True)
      \<and> page_status (snd (enable_GET parses PREVIEW_SECRET request isEnabled)) None = ''draft''
      \<and> page_status (snd (enable_GET parses PREVIEW_SECRET request isEnabled)) (Some (Multi ss))
          = ''draft'')
   \<and> (rooted_path u \<longrightarrow>
        new_URL parses u (req_url request)
          = Inr \<lparr>url_input = u, url_base = req_url request, url_sets = []\<rparr>)"
  by (auto simp: enable_GET_def Let_def searchParams_set_def startsWith_def
           dest: new_URL_Inr simp: rooted_path_new_URL split: option.splits)

theorem enable_GET_redirects_witness:
  "enable_GET (\<lambda>input base. False) (Some ''s3cret'')
     \<lparr>req_url = ''http://host/api/preview/enable'',
      req_searchParams = [(''url'', ''/blog/foo''), (''secret'', ''s3cret''),
                          (''status'', ''draft''), (''locale'', ''en'')]\<rparr> False
     = (Redirect \<lparr>url_input = ''/blog/foo'', url_base = ''http://host/api/preview/enable'',
                  url_sets = [(''status'', ''draft''), (''locale'', ''en'')]\<rparr>, True)
   \<and> enable_GET (\<lambda>input base. False) None
     \<lparr>req_url = ''http://host/api/preview/enable'',
      req_searchParams = [(''url'', ''/about'')]\<rparr> False
     = (Redirect \<lparr>url_input = ''/about'', url_base = ''http://host/api/preview/enable'',
                  url_sets = []\<rparr>, True)"
  using enable_GET_redirects
          [of "Some ''s3cret''"
              "\<lparr>req_url = ''http://host/api/preview/enable'',
                req_searchParams = [(''url'', ''/blog/foo''), (''secret'', ''s3cret''),
                                    (''status'', ''draft''), (''locale'', ''en'')]\<rparr>"
              "''/blog/foo''" "\<lambda>input base. False"
              "\<lparr>url_input = ''/blog/foo'', url_base = ''http://host/api/preview/enable'',
                url_sets = []\<rparr>" False]
        enable_GET_redirects
          [of None
              "\<lparr>req_url = ''http://host/api/preview/enable'',
                req_searchParams = [(''url'', ''/about'')]\<rparr>"
              "''/about''" "\<lambda>input base. False"
              "\<lparr>url_input = ''/about'', url_base = ''http://host/api/preview/enable'',
                url_sets = []\<rparr>" False]
  by (simp add: get_param_def startsWith_def new_URL_def slash_def tab_or_newline_def)

text \<open>
  The \<open>url\<close> \<open>//\<close> begins with \<open>/\<close> and the route throws instead of redirecting;
  a \<open>status\<close> parameter that is present and empty is not set on the redirect.
\<close>

theorem enable_GET_redirects_counterexample:
  "(\<forall>parses.
      enable_GET parses None
        \<lparr>req_url = ''http://host/api/preview/enable'',
         req_searchParams = [(''url'', ''//'')]\<rparr> False
      = (Thrown TypeError, True))
   \<and> get_param \<lparr>req_url = ''http://host/api/preview/enable'',
                 req_searchParams = [(''url'', ''/blog/foo''), (''status'', '''')]\<rparr> ''status''
       = Some ''''
   \<and> (\<forall>parses.
      enable_GET parses None
        \<lparr>req_url = ''http://host/api/preview/enable'',
         req_searchParams = [(''url'', ''/blog/foo''), (''status'', '''')]\<rparr> False
      = (Redirect \<lparr>url_input = ''/blog/foo'', url_base = ''http://host/api/preview/enable'',
                   url_sets = []\<rparr>, True))"
  by (simp add: enable_GET_def get_param_def startsWith_def new_URL_def slash_def
        tab_or_newline_def)

text \<open>
  C7, as the code has it. The disable route turns the draft flag off on every request,
  reads no secret and does not check the \<open>url\<close> for a leading \<open>/\<close>. Its target is
  the request's \<open>url\<close>, or \<open>/\<close> when that is missing or empty, and the response is a
  redirect to the target whenever \<open>new URL(url, request.url)\<close> accepts it, as it does
  the default \<open>/\<close>.
\<close>

theorem disable_GET_unconditional:
  "snd (disable_GET parses request isEnabled) = False
   \<and> (new_URL parses
         (case get_param request ''url'' of
            None \<Rightarrow> ''/'' | Some u \<Rightarrow> if u = [] then ''/'' else u)
         (req_url request) = Inr target \<longrightarrow>
       disable_GET parses request isEnabled =
         (Redirect \<lparr>url_input =
                      (case get_param request ''url'' of
                         None \<Rightarrow> ''/'' | Some u \<Rightarrow> if u = [] then ''/'' else u),
                    url_base = req_url request, url_sets = []\<rparr>,
          False))
   \<and> (get_param request ''url'' = None \<or> get_param request ''url'' = Some [] \<longrightarrow>
       disable_GET parses request isEnabled =
         (Redirect \<lparr>url_input = ''/'', url_base = req_url request, url_sets = []\<rparr>, False))"
  by (auto simp: disable_GET_def Let_def new_URL_def split: option.splits sum.splits if_splits)

theorem disable_GET_unconditional_witness:
  "disable_GET (\<lambda>input base. input = ''https://other.example/x'')
     \<lparr>req_url = ''http://host/api/preview/disable'',
      req_searchParams = [(''url'', ''https://other.example/x'')]\<rparr> True
     = (Redirect \<lparr>url_input = ''https://other.example/x'',
                  url_base = ''http://host/api/preview/disable'', url_sets = []\<rparr>, False)
   \<and> disable_GET (\<lambda>input base. False)
       \<lparr>req_url = ''http://host/api/preview/disable'', req_searchParams = []\<rparr> True
     = (Redirect \<lparr>url_input = ''/'', url_base = ''http://host/api/preview/disable'',
                  url_sets = []\<rparr>, False)"
  using disable_GET_unconditional
          [of "\<lambda>input base. input = ''https://other.example/x''"
              "\<lparr>req_url = ''http://host/api/preview/disable'',
                req_searchParams = [(''url'', ''https://other.example/x'')]\<rparr>" True
              "\<lparr>url_input = ''https://other.example/x'',
                url_base = ''http://host/api/preview/disable'', url_sets = []\<rparr>"]
        disable_GET_unconditional
          [of "\<lambda>input base. False"
              "\<lparr>req_url = ''http://host/api/preview/disable'', req_searchParams = []\<rparr>" True
              "\<lparr>url_input = ''/'', url_base = ''http://host/api/preview/disable'',
                url_sets = []\<rparr>"]
  by (simp add: get_param_def new_URL_def slash_def tab_or_newline_def)

text \<open>
  The \<open>url\<close> \<open>//\<close> makes the route throw instead of redirecting, and a \<open>url\<close>
  parameter that is present and empty is redirected to \<open>/\<close>.
\<close>

theorem disable_GET_unconditional_counterexample:
  "(\<forall>parses.
      disable_GET parses
        \<lparr>req_url = ''http://host/api/preview/disable'',
         req_searchParams = [(''url'', ''//'')]\<rparr> True
      = (Thrown TypeError, False))
   \<and> get_param \<lparr>req_url = ''http://host/api/preview/disable'',
                 req_searchParams = [(''url'', '''')]\<rparr> ''url'' = Some ''''
   \<and> (\<forall>parses.
      disable_GET parses
        \<lparr>req_url = ''http://host/api/preview/disable'',
         req_searchParams = [(''url'', '''')]\<rparr> True
      = (Redirect \<lparr>url_input = ''/'', url_base = ''http://host/api/preview/disable'',
                   url_sets = []\<rparr>, False))"
  by (simp add: disable_GET_def get_param_def new_URL_def slash_def tab_or_newline_def)

text \<open>
  C10, as the code has it. When \<open>PREVIEW_SECRET\<close> is unset or empty, the enable route
  checks no secret: every request whose \<open>url\<close> begins with \<open>/\<close> and is accepted by
  \<open>new URL(url, request.url)\<close>, as every path is, turns the draft flag on and is
  redirected to that \<open>url\<close>, whatever its \<open>secret\<close> parameter, missing or not. The
  response is 401 if and only if a non-empty secret is configured and the request's
  \<open>secret\<close> is not that secret.
\<close>

theorem enable_GET_secret_check:
  "((PREVIEW_SECRET = None \<or> PREVIEW_SECRET = Some [])
      \<and> get_param request ''url'' = Some u \<and> startsWith u ''/''
      \<and> new_URL parses u (req_url request) = Inr target \<longrightarrow>
      snd (enable_GET parses PREVIEW_SECRET request isEnabled) = True
      \<and> (\<exists>redirectUrl.
            fst (enable_GET parses PREVIEW_SECRET request isEnabled) = Redirect redirectUrl
            \<and> url_input redirectUrl = u))
   \<and> ((PREVIEW_SECRET = None \<or> PREVIEW_SECRET = Some [])
      \<and> get_param request ''url'' = Some u \<and> rooted_path u \<longrightarrow>
      snd (enable_GET parses PREVIEW_SECRET request isEnabled) = True
      \<and> (\<exists>redirectUrl.
            fst (enable_GET parses PREVIEW_SECRET request isEnabled) = Redirect redirectUrl
            \<and> url_input redirectUrl = u))
   \<and> ((\<exists>message. fst (enable_GET parses PREVIEW_SECRET request isEnabled) = Json 401 message)
        \<longleftrightarrow> (\<exists>expected. PREVIEW_SECRET = Some expected \<and> expected \<noteq> []
              \<and> get_param request ''secret'' \<noteq> Some expected))"
proof -
  have rooted: "startsWith u ''/''" if "rooted_path u"
    using that by (cases u rule: rooted_path.cases) (auto simp: startsWith_def)
  have accepted:
    "snd (enable_GET parses PREVIEW_SECRET request isEnabled) = True
     \<and> (\<exists>redirectUrl.
           fst (enable_GET parses PREVIEW_SECRET request isEnabled) = Redirect redirectUrl
           \<and> url_input redirectUrl = u)"
    if "PREVIEW_SECRET = None \<or> PREVIEW_SECRET = Some []"
      and "get_param request ''url'' = Some u" and "startsWith u ''/''"
      and "new_URL parses u (req_url request) = Inr t" for t
    using that
    by (auto simp: enable_GET_def Let_def searchParams_set_def startsWith_def
             dest!: new_URL_Inr split: option.splits)
  have unauthorized:
    "(\<exists>message. fst (enable_GET parses PREVIEW_SECRET request isEnabled) = Json 401 message)
      \<longleftrightarrow> (\<exists>expected. PREVIEW_SECRET = Some expected \<and> expected \<noteq> []
            \<and> get_param request ''secret'' \<noteq> Some expected)"
    by (cases PREVIEW_SECRET)
       (auto simp: enable_GET_def Let_def split: option.splits sum.splits)
  show ?thesis
    using accepted [of target] accepted [OF _ _ rooted rooted_path_new_URL] unauthorized
    by blast
qed

theorem enable_GET_secret_check_witness:
  "snd (enable_GET (\<lambda>input base. False) (Some [])
          \<lparr>req_url = ''http://host/api/preview/enable'',
           req_searchParams = [(''url'', ''/blog/foo''), (''secret'', ''anything'')]\<rparr> False)
     = True
   \<and> (\<exists>redirectUrl.
        fst (enable_GET (\<lambda>input base. False) None
               \<lparr>req_url = ''http://host/api/preview/enable'',
                req_searchParams = [(''url'', ''/blog/foo'')]\<rparr> False) = Redirect redirectUrl
        \<and> url_input redirectUrl = ''/blog/foo'')
   \<and> (\<exists>message.
        fst (enable_GET (\<lambda>input base. False) (Some ''s3cret'')
               \<lparr>req_url = ''http://host/api/preview/enable'',
                req_searchParams = [(''url'', ''/blog/foo'')]\<rparr> False) = Json 401 message)"
  using enable_GET_secret_check
          [of "Some []"
              "\<lparr>req_url = ''http://host/api/preview/enable'',
                req_searchParams = [(''url'', ''/blog/foo''), (''secret'', ''anything'')]\<rparr>"
              "''/blog/foo''" "\<lambda>input base. False"
              "\<lparr>url_input = ''/blog/foo'', url_base = ''http://host/api/preview/enable'',
                url_sets = []\<rparr>" False]
        enable_GET_secret_check
          [of None
              "\<lparr>req_url = ''http://host/api/preview/enable'',
                req_searchParams = [(''url'', ''/blog/foo'')]\<rparr>"
              "''/blog/foo''" "\<lambda>input base. False"
              "\<lparr>url_input = ''/blog/foo'', url_base = ''http://host/api/preview/enable'',
                url_sets = []\<rparr>" False]
        enable_GET_secret_check
          [of "Some ''s3cret''"
              "\<lparr>req_url = ''http://host/api/preview/enable'',
                req_searchParams = [(''url'', ''/blog/foo'')]\<rparr>"
              "''/blog/foo''" "\<lambda>input base. False"
              "\<lparr>url_input = ''/blog/foo'', url_base = ''http://host/api/preview/enable'',
                url_sets = []\<rparr>" False]
  by (simp add: get_param_def startsWith_def new_URL_def slash_def tab_or_newline_def)

text \<open>
  With an empty \<open>PREVIEW_SECRET\<close> and the \<open>url\<close> \<open>//\<close>, which begins with \<open>/\<close>,
  the route throws and does not redirect.
\<close>

theorem enable_GET_secret_check_counterexample:
  "\<forall>parses.
     enable_GET parses (Some [])
       \<lparr>req_url = ''http://host/api/preview/enable'',
        req_searchParams = [(''url'', ''//''), (''secret'', ''anything'')]\<rparr> False
     = (Thrown TypeError, True)"
  by (simp add: enable_GET_def get_param_def startsWith_def new_URL_def slash_def
        tab_or_newline_def)

end
